theory Spec2Isabelle
  imports Complex_Main "HOL-Library.Product_Lexorder"
begin

section \<open>Strings\<close>

text \<open>
  Python \<open>str\<close> values are modelled as \<open>string\<close> over ASCII characters. The
  whitespace class is the one \<open>str.strip\<close>, \<open>str.isspace\<close> and the regular
  expression class \<open>\s\<close> share on ASCII: the codes 9 to 13, 28 to 31 and 32.
\<close>

definition code :: "char \<Rightarrow> nat" where
  "code c = of_char c"

definition is_space :: "char \<Rightarrow> bool" where
  "is_space c = (let n = code c in (9 \<le> n \<and> n \<le> 13) \<or> (28 \<le> n \<and> n \<le> 32))"

definition is_digit :: "char \<Rightarrow> bool" where
  "is_digit c = (let n = code c in 48 \<le> n \<and> n \<le> 57)"

definition is_upper :: "char \<Rightarrow> bool" where
  "is_upper c = (let n = code c in 65 \<le> n \<and> n \<le> 90)"

definition is_lower :: "char \<Rightarrow> bool" where
  "is_lower c = (let n = code c in 97 \<le> n \<and> n \<le> 122)"

definition digit_val :: "char \<Rightarrow> int" where
  "digit_val c = int (code c) - 48"

definition digit_char :: "int \<Rightarrow> char" where
  "digit_char d = char_of (48 + d)"

definition lower_char :: "char \<Rightarrow> char" where
  "lower_char c = (if is_upper c then char_of (code c + 32) else c)"

definition lower :: "string \<Rightarrow> string" where
  "lower s = map lower_char s"

definition lstrip :: "string \<Rightarrow> string" where
  "lstrip s = dropWhile is_space s"

definition rstrip :: "string \<Rightarrow> string" where
  "rstrip s = rev (dropWhile is_space (rev s))"

definition strip :: "string \<Rightarrow> string" where
  "strip s = rstrip (lstrip s)"

text \<open>\<open>raw.rstrip("\n")\<close>: every trailing line feed is removed.\<close>

definition rstrip_nl :: "string \<Rightarrow> string" where
  "rstrip_nl s = rev (dropWhile (\<lambda>c. c = CHR 0x0A) (rev s))"

definition startswith :: "string \<Rightarrow> string \<Rightarrow> bool" where
  "startswith s p = (take (length p) s = p)"

text \<open>\<open>sep.join(xs)\<close>.\<close>

fun join :: "string \<Rightarrow> string list \<Rightarrow> string" where
  "join sep [] = []"
| "join sep [x] = x"
| "join sep (x # y # ys) = x @ sep @ join sep (y # ys)"

section \<open>The two compiled patterns\<close>

text \<open>
  \<open>RE_FLIGHT_ID = ^[A-Za-z0-9]{2,8}$\<close> and \<open>RE_AIRPORT = ^[A-Z]{3}$\<close>, used with
  \<open>match\<close>. In Python \<open>$\<close> also matches just before one trailing line feed, which
  \<open>chop_nl\<close> accounts for.
\<close>

definition is_alnum :: "char \<Rightarrow> bool" where
  "is_alnum c = (is_upper c \<or> is_lower c \<or> is_digit c)"

definition chop_nl :: "string \<Rightarrow> string" where
  "chop_nl s = (if s \<noteq> [] \<and> last s = CHR 0x0A then butlast s else s)"

definition RE_FLIGHT_ID :: "string \<Rightarrow> bool" where
  "RE_FLIGHT_ID s = (let b = chop_nl s in 2 \<le> length b \<and> length b \<le> 8 \<and> list_all is_alnum b)"

definition RE_AIRPORT :: "string \<Rightarrow> bool" where
  "RE_AIRPORT s = (let b = chop_nl s in length b = 3 \<and> list_all is_upper b)"

section \<open>Floats\<close>

text \<open>
  A Python float is modelled as an exact rational or one of the three special values.
  The comparisons are Python's: every comparison with \<open>nan\<close> is false. The value of a
  decimal literal is its exact decimal value: the rounding of a literal to the nearest
  binary64 number, and the range limits of binary64, are not modelled.
\<close>

datatype pyfloat = Fin rat | PInf | NInf | NaN

fun pf_le :: "pyfloat \<Rightarrow> pyfloat \<Rightarrow> bool" where
  "pf_le NaN _ = False"
| "pf_le _ NaN = False"
| "pf_le NInf _ = True"
| "pf_le _ PInf = True"
| "pf_le (Fin a) (Fin b) = (a \<le> b)"
| "pf_le PInf _ = False"
| "pf_le (Fin a) NInf = False"

fun pf_lt :: "pyfloat \<Rightarrow> pyfloat \<Rightarrow> bool" where
  "pf_lt NaN _ = False"
| "pf_lt _ NaN = False"
| "pf_lt (Fin a) (Fin b) = (a < b)"
| "pf_lt NInf NInf = False"
| "pf_lt NInf _ = True"
| "pf_lt PInf _ = False"
| "pf_lt (Fin a) PInf = True"
| "pf_lt (Fin a) NInf = False"

definition pf_gt :: "pyfloat \<Rightarrow> pyfloat \<Rightarrow> bool" where
  "pf_gt a b = pf_lt b a"

definition pf_neg :: "pyfloat \<Rightarrow> pyfloat" where
  "pf_neg x = (case x of Fin q \<Rightarrow> Fin (- q) | PInf \<Rightarrow> NInf | NInf \<Rightarrow> PInf | NaN \<Rightarrow> NaN)"

text \<open>Round half to even, to the nearest integer.\<close>

definition round_half_even :: "rat \<Rightarrow> int" where
  "round_half_even z =
     (let f = \<lfloor>z\<rfloor>; r = z - of_int f
      in if r < 1 / 2 then f else if 1 / 2 < r then f + 1 else if even f then f else f + 1)"

text \<open>
  \<open>round(x, 2)\<close>: the value is rounded correctly to two decimals (ties to even on the
  exact value); infinities and \<open>nan\<close> round to themselves.
\<close>

definition round2 :: "pyfloat \<Rightarrow> pyfloat" where
  "round2 x = (case x of Fin q \<Rightarrow> Fin (of_int (round_half_even (q * 100)) / 100) | _ \<Rightarrow> x)"

subsection \<open>\<open>float(s)\<close> on a string\<close>

text \<open>
  \<open>float\<close> strips the C whitespace (codes 9 to 13 and 32) at both ends, accepts single
  underscores between digits, and then requires the whole text to be an optionally signed
  \<open>inf\<close>, \<open>infinity\<close> or \<open>nan\<close> (in any case) or a decimal literal with an
  optional exponent. \<open>None\<close> stands for the \<open>ValueError\<close>.
\<close>

definition is_cspace :: "char \<Rightarrow> bool" where
  "is_cspace c = (let n = code c in (9 \<le> n \<and> n \<le> 13) \<or> n = 32)"

definition cstrip :: "string \<Rightarrow> string" where
  "cstrip s = rev (dropWhile is_cspace (rev (dropWhile is_cspace s)))"

text \<open>
  The underscore pass: \<open>prev\<close> is the previous character of the text (\<open>None\<close> at the
  start). An underscore must follow a digit and be followed by a digit.
\<close>

fun drop_underscores :: "char option \<Rightarrow> string \<Rightarrow> string option" where
  "drop_underscores prev [] = (if prev = Some CHR ''_'' then None else Some [])"
| "drop_underscores prev (c # cs) =
     (if c = CHR ''_'' then
        (case prev of
           None \<Rightarrow> None
         | Some p \<Rightarrow> if is_digit p then drop_underscores (Some c) cs else None)
      else if prev = Some CHR ''_'' \<and> \<not> is_digit c then None
      else map_option ((#) c) (drop_underscores (Some c) cs))"

definition int_of_digits :: "string \<Rightarrow> int" where
  "int_of_digits ds = foldl (\<lambda>a c. 10 * a + digit_val c) 0 ds"

definition split_sign :: "string \<Rightarrow> bool \<times> string" where
  "split_sign s =
     (case s of
        [] \<Rightarrow> (False, s)
      | c # r \<Rightarrow> if c = CHR ''-'' then (True, r) else if c = CHR ''+'' then (False, r) else (False, s))"

definition scale10 :: "int \<Rightarrow> int \<Rightarrow> rat" where
  "scale10 m k = (if 0 \<le> k then of_int m * 10 ^ nat k else of_int m / 10 ^ nat (- k))"

text \<open>The exponent part: empty, or \<open>e\<close>/\<open>E\<close>, an optional sign and at least one digit.\<close>

definition parse_exponent :: "string \<Rightarrow> int option" where
  "parse_exponent s =
     (case s of
        [] \<Rightarrow> Some 0
      | c # r \<Rightarrow>
          if c = CHR ''e'' \<or> c = CHR ''E'' then
            (let (neg, ds) = split_sign r
             in if ds \<noteq> [] \<and> list_all is_digit ds
                then Some (if neg then - int_of_digits ds else int_of_digits ds)
                else None)
          else None)"

definition parse_decimal :: "string \<Rightarrow> rat option" where
  "parse_decimal s =
     (let ip = takeWhile is_digit s; r1 = dropWhile is_digit s;
          has_dot = (r1 \<noteq> [] \<and> hd r1 = CHR ''.'');
          fp = (if has_dot then takeWhile is_digit (tl r1) else []);
          r2 = (if has_dot then dropWhile is_digit (tl r1) else r1)
      in if ip = [] \<and> fp = [] then None
         else (case parse_exponent r2 of
                 None \<Rightarrow> None
               | Some e \<Rightarrow> Some (scale10 (int_of_digits (ip @ fp)) (e - int (length fp)))))"

definition parse_inf_or_nan :: "string \<Rightarrow> pyfloat option" where
  "parse_inf_or_nan s =
     (let l = lower s
      in if l = ''inf'' \<or> l = ''infinity'' then Some PInf
         else if l = ''nan'' then Some NaN
         else None)"

definition float_of_string :: "string \<Rightarrow> pyfloat option" where
  "float_of_string s =
     (case drop_underscores None (cstrip s) of
        None \<Rightarrow> None
      | Some t \<Rightarrow>
          (let (neg, body) = split_sign t
           in case parse_inf_or_nan body of
                Some x \<Rightarrow> Some (if neg then pf_neg x else x)
              | None \<Rightarrow>
                  (case parse_decimal body of
                     None \<Rightarrow> None
                   | Some q \<Rightarrow> Some (Fin (if neg then - q else q)))))"

section \<open>Values read from JSON documents\<close>

text \<open>
  The values of a query object and of a dataset record, as \<open>json.load\<close> gives them.
  Field values are JSON scalars; arrays and objects as field values are outside the
  model. A dictionary with string keys is a map.
\<close>

datatype jv = JNull | JBool bool | JInt int | JFloat pyfloat | JStr string

type_synonym pydict = "string \<rightharpoonup> jv"

datatype pyerror = ValueError | TypeError | KeyError | AttributeError

text \<open>\<open>d.get(k)\<close> and \<open>d.get(k, default)\<close>.\<close>

definition dict_get :: "pydict \<Rightarrow> string \<Rightarrow> jv" where
  "dict_get d k = (case d k of None \<Rightarrow> JNull | Some v \<Rightarrow> v)"

definition dict_get_default :: "pydict \<Rightarrow> string \<Rightarrow> jv \<Rightarrow> jv" where
  "dict_get_default d k dflt = (case d k of None \<Rightarrow> dflt | Some v \<Rightarrow> v)"

text \<open>Truth value of a Python object in a condition.\<close>

fun truthy :: "jv \<Rightarrow> bool" where
  "truthy JNull = False"
| "truthy (JBool b) = b"
| "truthy (JInt n) = (n \<noteq> 0)"
| "truthy (JFloat x) = (x \<noteq> Fin 0)"
| "truthy (JStr s) = (s \<noteq> [])"

text \<open>
  \<open>a == b\<close>: booleans, integers and floats compare by numeric value (\<open>nan\<close> equals
  nothing), strings by content, \<open>None\<close> equals only \<open>None\<close>.
\<close>

fun num_of :: "jv \<Rightarrow> pyfloat option" where
  "num_of (JBool b) = Some (Fin (if b then 1 else 0))"
| "num_of (JInt n) = Some (Fin (of_int n))"
| "num_of (JFloat x) = Some x"
| "num_of _ = None"

fun py_eq :: "jv \<Rightarrow> jv \<Rightarrow> bool" where
  "py_eq JNull JNull = True"
| "py_eq (JStr s) (JStr t) = (s = t)"
| "py_eq a b =
     (case (num_of a, num_of b) of
        (Some x, Some y) \<Rightarrow> x \<noteq> NaN \<and> x = y
      | _ \<Rightarrow> False)"

text \<open>\<open>float(v)\<close>: a \<open>ValueError\<close> for a string that is no number, a \<open>TypeError\<close> for \<open>None\<close>.\<close>

fun float :: "jv \<Rightarrow> pyerror + pyfloat" where
  "float JNull = Inl TypeError"
| "float (JStr s) = (case float_of_string s of None \<Rightarrow> Inl ValueError | Some x \<Rightarrow> Inr x)"
| "float v = (case num_of v of Some x \<Rightarrow> Inr x | None \<Rightarrow> Inl TypeError)"

section \<open>Timestamps\<close>

text \<open>
  A naive \<open>datetime\<close> at minute resolution has the fields year, month, day, hour and
  minute; Python orders such values as the tuples of their fields are ordered
  lexicographically.
\<close>

datatype datetime = Datetime (year: int) (month: int) (day: int) (hour: int) (minute: int)

definition as_tuple :: "datetime \<Rightarrow> int \<times> int \<times> int \<times> int \<times> int" where
  "as_tuple t = (year t, month t, day t, hour t, minute t)"

definition dt_lt :: "datetime \<Rightarrow> datetime \<Rightarrow> bool" where
  "dt_lt a b = (as_tuple a < as_tuple b)"

definition dt_le :: "datetime \<Rightarrow> datetime \<Rightarrow> bool" where
  "dt_le a b = (as_tuple a \<le> as_tuple b)"

subsection \<open>\<open>datetime.strptime(s, "%Y-%m-%d %H:%M")\<close>\<close>

text \<open>
  \<open>strptime\<close> compiles the format to the regular expression
  \<^verbatim>\<open>(?P<Y>\d\d\d\d)-(?P<m>1[0-2]|0[1-9]|[1-9])-(?P<d>3[0-1]|[1-2]\d|0[1-9]|[1-9]| [1-9])\s+(?P<H>2[0-3]|[0-1]\d|\d):(?P<M>[0-5]\d|\d)\<close>,
  takes its first match at the start of the text, and fails when text remains after the
  match or when the fields are no date. Each piece of the expression returns its matches
  in the order in which the backtracking matcher tries them.
\<close>

definition digit_in :: "int \<Rightarrow> int \<Rightarrow> char \<Rightarrow> bool" where
  "digit_in lo hi c = (is_digit c \<and> lo \<le> digit_val c \<and> digit_val c \<le> hi)"

definition rx_digits2 :: "(char \<Rightarrow> bool) \<Rightarrow> (char \<Rightarrow> bool) \<Rightarrow> string \<Rightarrow> (int \<times> string) list" where
  "rx_digits2 P Q s =
     (case s of
        a # b # r \<Rightarrow> if P a \<and> Q b then [(10 * digit_val a + digit_val b, r)] else []
      | _ \<Rightarrow> [])"

definition rx_digit1 :: "(char \<Rightarrow> bool) \<Rightarrow> string \<Rightarrow> (int \<times> string) list" where
  "rx_digit1 P s = (case s of a # r \<Rightarrow> if P a then [(digit_val a, r)] else [] | [] \<Rightarrow> [])"

definition rx_chr :: "char \<Rightarrow> string \<Rightarrow> string list" where
  "rx_chr c s = (case s of a # r \<Rightarrow> if a = c then [r] else [] | [] \<Rightarrow> [])"

definition rx_Y :: "string \<Rightarrow> (int \<times> string) list" where
  "rx_Y s =
     (case s of
        a # b # c # d # r \<Rightarrow>
          if is_digit a \<and> is_digit b \<and> is_digit c \<and> is_digit d
          then [(1000 * digit_val a + 100 * digit_val b + 10 * digit_val c + digit_val d, r)]
          else []
      | _ \<Rightarrow> [])"

definition rx_m :: "string \<Rightarrow> (int \<times> string) list" where
  "rx_m s = rx_digits2 (digit_in 1 1) (digit_in 0 2) s
          @ rx_digits2 (digit_in 0 0) (digit_in 1 9) s
          @ rx_digit1 (digit_in 1 9) s"

definition rx_d :: "string \<Rightarrow> (int \<times> string) list" where
  "rx_d s = rx_digits2 (digit_in 3 3) (digit_in 0 1) s
          @ rx_digits2 (digit_in 1 2) is_digit s
          @ rx_digits2 (digit_in 0 0) (digit_in 1 9) s
          @ rx_digit1 (digit_in 1 9) s
          @ concat (map (rx_digit1 (digit_in 1 9)) (rx_chr CHR '' '' s))"

text \<open>\<open>\s+\<close> is greedy: the longest run of whitespace first, then shorter ones.\<close>

fun rx_spaces :: "string \<Rightarrow> string list" where
  "rx_spaces [] = []"
| "rx_spaces (c # r) = (if is_space c then rx_spaces r @ [r] else [])"

definition rx_H :: "string \<Rightarrow> (int \<times> string) list" where
  "rx_H s = rx_digits2 (digit_in 2 2) (digit_in 0 3) s
          @ rx_digits2 (digit_in 0 1) is_digit s
          @ rx_digit1 is_digit s"

definition rx_M :: "string \<Rightarrow> (int \<times> string) list" where
  "rx_M s = rx_digits2 (digit_in 0 5) is_digit s @ rx_digit1 is_digit s"

definition format_regex :: "string \<Rightarrow> (datetime \<times> string) list" where
  "format_regex s =
     [(Datetime y m d H M, r9).
        (y, r1) \<leftarrow> rx_Y s, r2 \<leftarrow> rx_chr CHR ''-'' r1,
        (m, r3) \<leftarrow> rx_m r2, r4 \<leftarrow> rx_chr CHR ''-'' r3,
        (d, r5) \<leftarrow> rx_d r4, r6 \<leftarrow> rx_spaces r5,
        (H, r7) \<leftarrow> rx_H r6, r8 \<leftarrow> rx_chr CHR '':'' r7,
        (M, r9) \<leftarrow> rx_M r8]"

definition is_leap :: "int \<Rightarrow> bool" where
  "is_leap y = (y mod 4 = 0 \<and> (y mod 100 \<noteq> 0 \<or> y mod 400 = 0))"

definition days_in_month :: "int \<Rightarrow> int \<Rightarrow> int" where
  "days_in_month y m =
     (if m = 2 then (if is_leap y then 29 else 28)
      else if m = 4 \<or> m = 6 \<or> m = 9 \<or> m = 11 then 30 else 31)"

text \<open>\<open>None\<close> stands for the \<open>ValueError\<close> of \<open>strptime\<close>; the smallest year is 1.\<close>

definition strptime :: "string \<Rightarrow> datetime option" where
  "strptime s =
     (case format_regex s of
        [] \<Rightarrow> None
      | (t, rest) # _ \<Rightarrow>
          if rest \<noteq> [] then None
          else if year t < 1 \<or> days_in_month (year t) (month t) < day t then None
          else Some t)"

text \<open>
  \<open>parse_datetime\<close> turns every exception into \<open>None\<close>, also the \<open>TypeError\<close> of
  \<open>strptime\<close> on a value that is no string.
\<close>

fun parse_datetime :: "jv \<Rightarrow> datetime option" where
  "parse_datetime (JStr s) = strptime s"
| "parse_datetime _ = None"

subsection \<open>\<open>dt.strftime("%Y-%m-%d %H:%M")\<close>\<close>

text \<open>
  Every field is zero-padded, the year to four digits and the others to two, as the
  format codes are documented. (The C library behind \<open>strftime\<close> decides how a year
  below 1000 is written; the documented form \<open>0001\<close> to \<open>9999\<close> is the one modelled.)
\<close>

definition zpad2 :: "int \<Rightarrow> string" where
  "zpad2 n = [digit_char (n div 10), digit_char (n mod 10)]"

definition zpad4 :: "int \<Rightarrow> string" where
  "zpad4 n = [digit_char (n div 1000), digit_char (n div 100 mod 10),
              digit_char (n div 10 mod 10), digit_char (n mod 10)]"

definition strftime :: "datetime \<Rightarrow> string" where
  "strftime t =
     zpad4 (year t) @ ''-'' @ zpad2 (month t) @ ''-'' @ zpad2 (day t) @ '' '' @
     zpad2 (hour t) @ '':'' @ zpad2 (minute t)"

section \<open>The record validator\<close>

record flight =
  flight_id :: string
  origin :: string
  destination :: string
  departure_datetime :: string
  arrival_datetime :: string
  price :: pyfloat

text \<open>\<open>if cond: errors.append(msg)\<close>.\<close>

definition append_if :: "bool \<Rightarrow> string \<Rightarrow> string list \<Rightarrow> string list" where
  "append_if cond msg errors = (if cond then errors @ [msg] else errors)"

text \<open>The presence checks, in the order of the source.\<close>

definition presence_checks ::
  "string \<Rightarrow> string \<Rightarrow> string \<Rightarrow> string \<Rightarrow> string \<Rightarrow> string \<Rightarrow> string list \<Rightarrow> string list" where
  "presence_checks fid org dst dep_s arr_s price_s errors =
     append_if (price_s = []) ''missing price''
       (append_if (arr_s = []) ''missing arrival_datetime''
         (append_if (dep_s = []) ''missing departure_datetime''
           (append_if (dst = []) ''missing destination field''
             (append_if (org = []) ''missing origin field''
               (append_if (fid = []) ''missing flight_id'' errors)))))"

definition flight_id_check :: "string \<Rightarrow> string list \<Rightarrow> string list" where
  "flight_id_check fid errors =
     (if fid \<noteq> [] \<and> \<not> RE_FLIGHT_ID fid then
        (if length fid < 2 \<or> 8 < length fid
         then errors @ [''flight_id length must be 2-8 alphanumeric characters'']
         else errors @ [''invalid flight_id format''])
      else errors)"

definition airport_checks :: "string \<Rightarrow> string \<Rightarrow> string list \<Rightarrow> string list" where
  "airport_checks org dst errors =
     append_if (dst \<noteq> [] \<and> \<not> RE_AIRPORT dst) ''invalid destination code''
       (append_if (org \<noteq> [] \<and> \<not> RE_AIRPORT org) ''invalid origin code'' errors)"

definition datetime_checks ::
  "string \<Rightarrow> string \<Rightarrow> datetime option \<Rightarrow> datetime option \<Rightarrow> string list \<Rightarrow> string list" where
  "datetime_checks dep_s arr_s dep_dt arr_dt errors =
     append_if (case (dep_dt, arr_dt) of (Some d, Some a) \<Rightarrow> dt_le a d | _ \<Rightarrow> False)
         ''arrival before or equal to departure''
       (append_if (arr_s \<noteq> [] \<and> arr_dt = None) ''invalid arrival datetime''
         (append_if (dep_s \<noteq> [] \<and> dep_dt = None) ''invalid departure datetime'' errors))"

text \<open>The price block: the parsed price (if any) and the error list after the block.\<close>

definition price_check :: "string \<Rightarrow> string list \<Rightarrow> pyfloat option \<times> string list" where
  "price_check price_s errors =
     (if price_s \<noteq> [] then
        (case float (JStr price_s) of
           Inr p \<Rightarrow> (Some p, append_if (pf_le p (Fin 0)) ''negative or zero price value'' errors)
         | Inl e \<Rightarrow> (None, errors @ [''invalid price format'']))
      else (None, errors))"

text \<open>
  \<open>validate_row\<close> returns either \<open>(False, {}, errors)\<close> or \<open>(True, record, [])\<close>:
  the two shapes of the triple are the two constructors of \<open>validation\<close>. Building
  the record calls \<open>strftime\<close> on the parsed timestamps and \<open>round\<close> on the parsed
  price; on \<open>None\<close> these raise, which is the \<open>Inl\<close> result.
\<close>

datatype validation = Invalid "string list" | Valid flight

definition validate_row :: "string list \<Rightarrow> pyerror + validation" where
  "validate_row cells =
     (if length cells < 6 then Inr (Invalid [''missing required fields''])
      else
        (let fid = strip (cells ! 0); org = strip (cells ! 1); dst = strip (cells ! 2);
             dep_s = strip (cells ! 3); arr_s = strip (cells ! 4); price_s = strip (cells ! 5);
             e1 = presence_checks fid org dst dep_s arr_s price_s [];
             e2 = flight_id_check fid e1;
             e3 = airport_checks org dst e2;
             dep_dt = (if dep_s \<noteq> [] then parse_datetime (JStr dep_s) else None);
             arr_dt = (if arr_s \<noteq> [] then parse_datetime (JStr arr_s) else None);
             e4 = datetime_checks dep_s arr_s dep_dt arr_dt e3;
             (price, errors) = price_check price_s e4
         in if errors \<noteq> [] then Inr (Invalid errors)
            else
              (case (dep_dt, arr_dt, price) of
                 (Some d, Some a, Some p) \<Rightarrow>
                   Inr (Valid \<lparr>flight_id = fid, origin = org, destination = dst,
                               departure_datetime = strftime d, arrival_datetime = strftime a,
                               price = round2 p\<rparr>)
               | (None, _, _) \<Rightarrow> Inl AttributeError
               | (_, None, _) \<Rightarrow> Inl AttributeError
               | (_, _, None) \<Rightarrow> Inl TypeError)))"

section \<open>The file scanner\<close>

subsection \<open>\<open>next(csv.reader([line]))\<close>\<close>

text \<open>
  The reader of the \<open>csv\<close> module with the default dialect (delimiter \<open>,\<close>, quote
  character \<open>"\<close>, doubled quotes, not strict), as the state machine that reads one line
  and then the end of the line. \<open>None\<close> stands for \<open>csv.Error\<close>: a field longer than
  the field size limit, or a character after a line break outside quotes.
\<close>

datatype csv_state =
  START_RECORD | START_FIELD | IN_FIELD | IN_QUOTED_FIELD | QUOTE_IN_QUOTED_FIELD | EAT_CRNL

definition field_limit :: int where
  "field_limit = 131072"

definition is_newline :: "char \<Rightarrow> bool" where
  "is_newline c = (c = CHR 0x0A \<or> c = CHR 0x0D)"

text \<open>
  \<open>csv_parse st saved cur cs\<close>: the state, the fields saved so far, the field being
  read and the characters left. At the start of a record a character other than a line
  break is handled as at the start of a field. At the end of the characters the reader
  sees the end of the line, and then the end of the input.
\<close>

fun csv_parse :: "csv_state \<Rightarrow> string list \<Rightarrow> string \<Rightarrow> string \<Rightarrow> string list option" where
  "csv_parse st saved cur [] =
     (case st of
        START_RECORD \<Rightarrow> Some saved
      | EAT_CRNL \<Rightarrow> Some saved
      | _ \<Rightarrow> Some (saved @ [cur]))"
| "csv_parse st saved cur (c # cs) =
     (case (if st = START_RECORD \<and> \<not> is_newline c then START_FIELD else st) of
        START_RECORD \<Rightarrow> csv_parse EAT_CRNL saved cur cs
      | START_FIELD \<Rightarrow>
          if is_newline c then csv_parse EAT_CRNL (saved @ [cur]) [] cs
          else if c = CHR 0x22 then csv_parse IN_QUOTED_FIELD saved cur cs
          else if c = CHR '','' then csv_parse START_FIELD (saved @ [cur]) [] cs
          else if field_limit \<le> int (length cur) then None
          else csv_parse IN_FIELD saved (cur @ [c]) cs
      | IN_FIELD \<Rightarrow>
          if is_newline c then csv_parse EAT_CRNL (saved @ [cur]) [] cs
          else if c = CHR '','' then csv_parse START_FIELD (saved @ [cur]) [] cs
          else if field_limit \<le> int (length cur) then None
          else csv_parse IN_FIELD saved (cur @ [c]) cs
      | IN_QUOTED_FIELD \<Rightarrow>
          if c = CHR 0x22 then csv_parse QUOTE_IN_QUOTED_FIELD saved cur cs
          else if field_limit \<le> int (length cur) then None
          else csv_parse IN_QUOTED_FIELD saved (cur @ [c]) cs
      | QUOTE_IN_QUOTED_FIELD \<Rightarrow>
          if c = CHR 0x22 then
            (if field_limit \<le> int (length cur) then None
             else csv_parse IN_QUOTED_FIELD saved (cur @ [c]) cs)
          else if c = CHR '','' then csv_parse START_FIELD (saved @ [cur]) [] cs
          else if is_newline c then csv_parse EAT_CRNL (saved @ [cur]) [] cs
          else if field_limit \<le> int (length cur) then None
          else csv_parse IN_FIELD saved (cur @ [c]) cs
      | EAT_CRNL \<Rightarrow>
          if is_newline c then csv_parse EAT_CRNL saved cur cs else None)"

definition csv_reader_next :: "string \<Rightarrow> string list option" where
  "csv_reader_next line = csv_parse START_RECORD [] [] line"

subsection \<open>\<open>parse_csv_file\<close>\<close>

text \<open>
  The file is the list of its lines as the iteration over the open file yields them.
  A diagnostic is the triple (line number, line, message). \<open>scan_line\<close> is the body of
  the loop: it takes and returns the two lists the loop appends to.
\<close>

type_synonym diagnostic = "int \<times> string \<times> string"

definition is_header :: "string list \<Rightarrow> bool" where
  "is_header cells = (1 \<le> length cells \<and> lower (strip (cells ! 0)) = ''flight_id'')"

definition scan_line ::
  "int \<Rightarrow> string \<Rightarrow> flight list \<times> diagnostic list \<Rightarrow> pyerror + (flight list \<times> diagnostic list)" where
  "scan_line i raw acc =
     (let (valids, errors) = acc; line = rstrip_nl raw
      in if strip line = [] then Inr (valids, errors)
         else if startswith (lstrip line) ''#''
         then Inr (valids, errors @ [(i, line, ''comment line, ignored for data parsing'')])
         else
           (case csv_reader_next line of
              None \<Rightarrow> Inr (valids, errors @ [(i, line, ''malformed CSV line'')])
            | Some cells \<Rightarrow>
                if is_header cells then Inr (valids, errors)
                else
                  (case validate_row cells of
                     Inl e \<Rightarrow> Inl e
                   | Inr (Valid r) \<Rightarrow> Inr (valids @ [r], errors)
                   | Inr (Invalid msgs) \<Rightarrow> Inr (valids, errors @ [(i, line, join '', '' msgs)]))))"

fun scan_lines ::
  "int \<Rightarrow> string list \<Rightarrow> flight list \<times> diagnostic list \<Rightarrow> pyerror + (flight list \<times> diagnostic list)" where
  "scan_lines i [] acc = Inr acc"
| "scan_lines i (raw # rest) acc =
     (case scan_line i raw acc of
        Inl e \<Rightarrow> Inl e
      | Inr acc' \<Rightarrow> scan_lines (i + 1) rest acc')"

definition parse_csv_file :: "string list \<Rightarrow> pyerror + (flight list \<times> diagnostic list)" where
  "parse_csv_file lines = scan_lines 1 lines ([], [])"

section \<open>The query matcher\<close>

text \<open>A record of the validator as the dictionary that is written to the dataset.\<close>

definition flight_dict :: "flight \<Rightarrow> pydict" where
  "flight_dict f =
     [''flight_id'' \<mapsto> JStr (flight_id f), ''origin'' \<mapsto> JStr (origin f),
      ''destination'' \<mapsto> JStr (destination f),
      ''departure_datetime'' \<mapsto> JStr (departure_datetime f),
      ''arrival_datetime'' \<mapsto> JStr (arrival_datetime f),
      ''price'' \<mapsto> JFloat (price f)]"

text \<open>
  The values parsed before the loop. \<open>q_dep\<close> and \<open>q_arr\<close> are \<open>None\<close> when the
  query value is falsy and also when \<open>parse_datetime\<close> returns \<open>None\<close>. \<open>q_price\<close>
  is \<open>float\<close> of the query value unless that value is \<open>None\<close>; its exception leaves
  the function.
\<close>

definition query_datetime :: "pydict \<Rightarrow> string \<Rightarrow> datetime option" where
  "query_datetime query key =
     (if truthy (dict_get query key) then parse_datetime (dict_get query key) else None)"

definition query_price :: "pydict \<Rightarrow> pyerror + pyfloat option" where
  "query_price query =
     (if dict_get query ''price'' \<noteq> JNull then
        (case float (dict_get query ''price'') of Inl e \<Rightarrow> Inl e | Inr p \<Rightarrow> Inr (Some p))
      else Inr None)"

text \<open>
  The loop over the three exact-match keys: \<open>False\<close> as soon as a key of the query
  differs from the record's value (\<open>rec.get(key) != query[key]\<close>).
\<close>

fun exact_matches :: "string list \<Rightarrow> pydict \<Rightarrow> pydict \<Rightarrow> bool" where
  "exact_matches [] r query = True"
| "exact_matches (key # keys) r query =
     (case query key of
        None \<Rightarrow> exact_matches keys r query
      | Some v \<Rightarrow> if \<not> py_eq (dict_get r key) v then False else exact_matches keys r query)"

text \<open>
  The three range checks. Each returns whether the record passes; \<open>r[key]\<close> on a
  missing key raises \<open>KeyError\<close>, and comparing \<open>None\<close> with a \<open>datetime\<close> raises
  \<open>TypeError\<close>.
\<close>

definition departure_check :: "datetime option \<Rightarrow> pydict \<Rightarrow> pyerror + bool" where
  "departure_check q_dep r =
     (case q_dep of
        None \<Rightarrow> Inr True
      | Some qd \<Rightarrow>
          (case r ''departure_datetime'' of
             None \<Rightarrow> Inl KeyError
           | Some v \<Rightarrow>
               (case parse_datetime v of
                  None \<Rightarrow> Inl TypeError
                | Some r_dep \<Rightarrow> if dt_lt r_dep qd then Inr False else Inr True)))"

definition arrival_check :: "datetime option \<Rightarrow> pydict \<Rightarrow> pyerror + bool" where
  "arrival_check q_arr r =
     (case q_arr of
        None \<Rightarrow> Inr True
      | Some qa \<Rightarrow>
          (case r ''arrival_datetime'' of
             None \<Rightarrow> Inl KeyError
           | Some v \<Rightarrow>
               (case parse_datetime v of
                  None \<Rightarrow> Inl TypeError
                | Some r_arr \<Rightarrow> if dt_lt qa r_arr then Inr False else Inr True)))"

definition price_ceiling_check :: "pyfloat option \<Rightarrow> pydict \<Rightarrow> pyerror + bool" where
  "price_ceiling_check q_price r =
     (case q_price of
        None \<Rightarrow> Inr True
      | Some qp \<Rightarrow>
          (case float (dict_get_default r ''price'' (JInt 0)) of
             Inl e \<Rightarrow> Inl e
           | Inr rp \<Rightarrow> if pf_gt rp qp then Inr False else Inr True))"

text \<open>
  The body of the loop over the dataset: whether the record is appended to the results.
  A check that fails skips the later ones.
\<close>

definition rec_matches ::
  "datetime option \<Rightarrow> datetime option \<Rightarrow> pyfloat option \<Rightarrow> pydict \<Rightarrow> pydict \<Rightarrow> pyerror + bool" where
  "rec_matches q_dep q_arr q_price query r =
     (if \<not> exact_matches [''flight_id'', ''origin'', ''destination''] r query then Inr False
      else
        (case departure_check q_dep r of
           Inl e \<Rightarrow> Inl e
         | Inr False \<Rightarrow> Inr False
         | Inr True \<Rightarrow>
             (case arrival_check q_arr r of
                Inl e \<Rightarrow> Inl e
              | Inr False \<Rightarrow> Inr False
              | Inr True \<Rightarrow> price_ceiling_check q_price r)))"

fun match_loop ::
  "datetime option \<Rightarrow> datetime option \<Rightarrow> pyfloat option \<Rightarrow> pydict \<Rightarrow> pydict list \<Rightarrow> pydict list
   \<Rightarrow> pyerror + pydict list" where
  "match_loop q_dep q_arr q_price query [] results = Inr results"
| "match_loop q_dep q_arr q_price query (r # db) results =
     (case rec_matches q_dep q_arr q_price query r of
        Inl e \<Rightarrow> Inl e
      | Inr ok \<Rightarrow>
          match_loop q_dep q_arr q_price query db (if ok then results @ [r] else results))"

definition match_query :: "pydict list \<Rightarrow> pydict \<Rightarrow> pyerror + pydict list" where
  "match_query db query =
     (let q_dep = query_datetime query ''departure_datetime'';
          q_arr = query_datetime query ''arrival_datetime''
      in case query_price query of
           Inl e \<Rightarrow> Inl e
         | Inr q_price \<Rightarrow> match_loop q_dep q_arr q_price query db [])"

subsection \<open>The matching rule as the specification words it\<close>













section \<open>The validation rules as the specification words them\<close>

text \<open>
  The reasons of a row of at least six cells in the order the specification fixes:
  the presence reasons of the six fields, the identifier format, the origin and the
  destination format, the parseability of the departure and of the arrival, the
  cross-field ordering, the price format or positivity.
\<close>

definition reason_when :: "bool \<Rightarrow> string \<Rightarrow> string list" where
  "reason_when cond msg = (if cond then [msg] else [])"

definition identifier_reasons :: "string \<Rightarrow> string list" where
  "identifier_reasons fid =
     (if fid = [] \<or> RE_FLIGHT_ID fid then []
      else if length fid < 2 \<or> 8 < length fid
      then [''flight_id length must be 2-8 alphanumeric characters'']
      else [''invalid flight_id format''])"

definition ordering_reasons :: "string \<Rightarrow> string \<Rightarrow> string list" where
  "ordering_reasons dep_s arr_s =
     (case (strptime dep_s, strptime arr_s) of
        (Some d, Some a) \<Rightarrow> reason_when (dt_le a d) ''arrival before or equal to departure''
      | _ \<Rightarrow> [])"

definition price_reasons :: "string \<Rightarrow> string list" where
  "price_reasons price_s =
     (if price_s = [] then []
      else (case float_of_string price_s of
              None \<Rightarrow> [''invalid price format'']
            | Some p \<Rightarrow> reason_when (pf_le p (Fin 0)) ''negative or zero price value''))"

definition reasons_in_order :: "string list \<Rightarrow> string list" where
  "reasons_in_order cells =
     (let fid = strip (cells ! 0); org = strip (cells ! 1); dst = strip (cells ! 2);
          dep_s = strip (cells ! 3); arr_s = strip (cells ! 4); price_s = strip (cells ! 5)
      in reason_when (fid = []) ''missing flight_id''
       @ reason_when (org = []) ''missing origin field''
       @ reason_when (dst = []) ''missing destination field''
       @ reason_when (dep_s = []) ''missing departure_datetime''
       @ reason_when (arr_s = []) ''missing arrival_datetime''
       @ reason_when (price_s = []) ''missing price''
       @ identifier_reasons fid
       @ reason_when (org \<noteq> [] \<and> \<not> RE_AIRPORT org) ''invalid origin code''
       @ reason_when (dst \<noteq> [] \<and> \<not> RE_AIRPORT dst) ''invalid destination code''
       @ reason_when (dep_s \<noteq> [] \<and> strptime dep_s = None) ''invalid departure datetime''
       @ reason_when (arr_s \<noteq> [] \<and> strptime arr_s = None) ''invalid arrival datetime''
       @ ordering_reasons dep_s arr_s
       @ price_reasons price_s)"

text \<open>
  The six fields by position: the reason of a blank field, the format and positivity
  reasons of the field, and when a non-blank value of the field is invalid.
\<close>

definition missing_reason :: "nat \<Rightarrow> string" where
  "missing_reason k =
     [''missing flight_id'', ''missing origin field'', ''missing destination field'',
      ''missing departure_datetime'', ''missing arrival_datetime'', ''missing price''] ! k"

definition format_reasons :: "nat \<Rightarrow> string list" where
  "format_reasons k =
     [[''flight_id length must be 2-8 alphanumeric characters'', ''invalid flight_id format''],
      [''invalid origin code''], [''invalid destination code''],
      [''invalid departure datetime''], [''invalid arrival datetime''],
      [''invalid price format'', ''negative or zero price value'']] ! k"

definition price_invalid :: "string \<Rightarrow> bool" where
  "price_invalid s = (case float_of_string s of None \<Rightarrow> True | Some p \<Rightarrow> pf_le p (Fin 0))"

definition field_invalid :: "nat \<Rightarrow> string \<Rightarrow> bool" where
  "field_invalid k s =
     [\<not> RE_FLIGHT_ID s, \<not> RE_AIRPORT s, \<not> RE_AIRPORT s,
      strptime s = None, strptime s = None, price_invalid s] ! k"


text \<open>A scanned line whose first character after leading whitespace is \<open>#\<close>.\<close>

definition is_comment :: "string \<Rightarrow> bool" where
  "is_comment raw = (case lstrip (rstrip_nl raw) of [] \<Rightarrow> False | c # cs \<Rightarrow> c = CHR ''#'')"


text \<open>Two records of a dataset, used where a property is evaluated.\<close>

definition example_flight :: flight where
  "example_flight =
     \<lparr>flight_id = ''AB12'', origin = ''JFK'', destination = ''LAX'',
      departure_datetime = ''2024-01-01 08:00'', arrival_datetime = ''2024-01-01 14:30'',
      price = Fin 200\<rparr>"


section \<open>Properties of the record validator\<close>

subsection \<open>The accumulated reasons are the reasons in the fixed order\<close>

lemma append_if_eq: "append_if c m es = es @ reason_when c m"
  by (simp add: append_if_def reason_when_def)

lemma presence_checks_eq:
  "presence_checks fid org dst dep_s arr_s price_s es =
     es @ reason_when (fid = []) ''missing flight_id''
        @ reason_when (org = []) ''missing origin field''
        @ reason_when (dst = []) ''missing destination field''
        @ reason_when (dep_s = []) ''missing departure_datetime''
        @ reason_when (arr_s = []) ''missing arrival_datetime''
        @ reason_when (price_s = []) ''missing price''"
  by (simp add: presence_checks_def append_if_eq)

lemma flight_id_check_eq: "flight_id_check fid es = es @ identifier_reasons fid"
  by (simp add: flight_id_check_def identifier_reasons_def)

lemma airport_checks_eq:
  "airport_checks org dst es =
     es @ reason_when (org \<noteq> [] \<and> \<not> RE_AIRPORT org) ''invalid origin code''
        @ reason_when (dst \<noteq> [] \<and> \<not> RE_AIRPORT dst) ''invalid destination code''"
  by (simp add: airport_checks_def append_if_eq)

lemma strptime_Nil: "strptime [] = None"
  by (simp add: strptime_def format_regex_def rx_Y_def)

lemma datetime_checks_eq:
  "datetime_checks dep_s arr_s
      (if dep_s \<noteq> [] then parse_datetime (JStr dep_s) else None)
      (if arr_s \<noteq> [] then parse_datetime (JStr arr_s) else None) es =
     es @ reason_when (dep_s \<noteq> [] \<and> strptime dep_s = None) ''invalid departure datetime''
        @ reason_when (arr_s \<noteq> [] \<and> strptime arr_s = None) ''invalid arrival datetime''
        @ ordering_reasons dep_s arr_s"
  by (cases "dep_s = []"; cases "arr_s = []")
     (auto simp: datetime_checks_def append_if_eq ordering_reasons_def strptime_Nil reason_when_def
           split: option.splits)

lemma price_check_eq: "snd (price_check price_s es) = es @ price_reasons price_s"
  by (auto simp: price_check_def price_reasons_def append_if_eq split: option.splits sum.splits)

lemma price_check_fst:
  "fst (price_check price_s es) = (if price_s = [] then None else float_of_string price_s)"
  by (auto simp: price_check_def split: option.splits sum.splits)

lemma validate_row_errors:
  assumes "6 \<le> length cells"
  shows "validate_row cells =
     (if reasons_in_order cells \<noteq> [] then Inr (Invalid (reasons_in_order cells))
      else (case (strptime (strip (cells ! 3)), strptime (strip (cells ! 4)),
                  float_of_string (strip (cells ! 5))) of
              (Some d, Some a, Some p) \<Rightarrow>
                 Inr (Valid \<lparr>flight_id = strip (cells ! 0), origin = strip (cells ! 1),
                       destination = strip (cells ! 2),
                       departure_datetime = strftime d, arrival_datetime = strftime a,
                       price = round2 p\<rparr>)
            | (None, _, _) \<Rightarrow> Inl AttributeError
            | (_, None, _) \<Rightarrow> Inl AttributeError
            | (_, _, None) \<Rightarrow> Inl TypeError))"
proof -
  obtain pr es where pc: "price_check (strip (cells ! 5))
        (datetime_checks (strip (cells ! 3)) (strip (cells ! 4))
          (if strip (cells ! 3) \<noteq> [] then parse_datetime (JStr (strip (cells ! 3))) else None)
          (if strip (cells ! 4) \<noteq> [] then parse_datetime (JStr (strip (cells ! 4))) else None)
          (airport_checks (strip (cells ! 1)) (strip (cells ! 2))
            (flight_id_check (strip (cells ! 0))
              (presence_checks (strip (cells ! 0)) (strip (cells ! 1)) (strip (cells ! 2))
                 (strip (cells ! 3)) (strip (cells ! 4)) (strip (cells ! 5)) [])))) = (pr, es)"
    by (cases "price_check (strip (cells ! 5))
        (datetime_checks (strip (cells ! 3)) (strip (cells ! 4))
          (if strip (cells ! 3) \<noteq> [] then parse_datetime (JStr (strip (cells ! 3))) else None)
          (if strip (cells ! 4) \<noteq> [] then parse_datetime (JStr (strip (cells ! 4))) else None)
          (airport_checks (strip (cells ! 1)) (strip (cells ! 2))
            (flight_id_check (strip (cells ! 0))
              (presence_checks (strip (cells ! 0)) (strip (cells ! 1)) (strip (cells ! 2))
                 (strip (cells ! 3)) (strip (cells ! 4)) (strip (cells ! 5)) []))))") auto
  have es: "es = reasons_in_order cells"
    using arg_cong [OF pc, of snd]
    by (simp add: price_check_eq datetime_checks_eq airport_checks_eq flight_id_check_eq
        presence_checks_eq reasons_in_order_def Let_def)
  have pr: "pr = (if strip (cells ! 5) = [] then None else float_of_string (strip (cells ! 5)))"
    using arg_cong [OF pc, of fst] by (simp add: price_check_fst)
  show ?thesis
  proof (cases "reasons_in_order cells = []")
    case False
    then show ?thesis using assms pc es by (simp add: validate_row_def Let_def)
  next
    case True
    then have "strip (cells ! 3) \<noteq> []" "strip (cells ! 4) \<noteq> []" "strip (cells ! 5) \<noteq> []"
      by (auto simp: reasons_in_order_def Let_def reason_when_def split: if_splits)
    then show ?thesis using assms pc es pr True
      by (simp add: validate_row_def Let_def split: option.splits)
  qed
qed

lemma validate_row_invalid_iff:
  assumes "6 \<le> length cells"
  shows "validate_row cells = Inr (Invalid errors) \<longleftrightarrow>
         errors = reasons_in_order cells \<and> errors \<noteq> []"
  using assms by (auto simp: validate_row_errors split: option.splits)

lemma reasons_Nil_parsed:
  assumes "reasons_in_order cells = []"
  shows "\<exists>d a p. strptime (strip (cells ! 3)) = Some d \<and> strptime (strip (cells ! 4)) = Some a \<and>
           float_of_string (strip (cells ! 5)) = Some p \<and> \<not> dt_le a d \<and> \<not> pf_le p (Fin 0)"
  using assms
  by (auto simp: reasons_in_order_def Let_def reason_when_def ordering_reasons_def
        price_reasons_def split: if_splits option.splits)


lemma validate_row_total: "\<exists>v. validate_row cells = Inr v"
proof (cases "6 \<le> length cells")
  case True
  show ?thesis
  proof (cases "reasons_in_order cells = []")
    case False
    with True show ?thesis by (simp add: validate_row_errors)
  next
    case Nil: True
    from reasons_Nil_parsed [OF Nil] True Nil show ?thesis
      by (auto simp: validate_row_errors)
  qed
next
  case False
  then show ?thesis by (simp add: validate_row_def)
qed

lemma count_reason_when: "count_list (reason_when c m) x = (if c \<and> x = m then 1 else 0)"
  by (simp add: reason_when_def)

lemma set_reason_when: "set (reason_when c m) = (if c then {m} else {})"
  by (simp add: reason_when_def)

lemma set_identifier_reasons:
  "x \<in> set (identifier_reasons fid) \<Longrightarrow>
     fid \<noteq> [] \<and> \<not> RE_FLIGHT_ID fid \<and>
     (x = ''flight_id length must be 2-8 alphanumeric characters'' \<or> x = ''invalid flight_id format'')"
  by (auto simp: identifier_reasons_def split: if_splits)

lemma mem_reason_when: "x \<in> set (reason_when c m) \<longleftrightarrow> c \<and> x = m"
  by (auto simp: reason_when_def)

lemma set_ordering_reasons:
  "x \<in> set (ordering_reasons dep_s arr_s) \<longleftrightarrow>
     (\<exists>d a. strptime dep_s = Some d \<and> strptime arr_s = Some a \<and> dt_le a d) \<and>
     x = ''arrival before or equal to departure''"
  by (cases "strptime dep_s"; cases "strptime arr_s")
     (simp_all add: ordering_reasons_def mem_reason_when)

lemma set_price_reasons:
  "x \<in> set (price_reasons s) \<longleftrightarrow>
     s \<noteq> [] \<and> (float_of_string s = None \<and> x = ''invalid price format'' \<or>
                (\<exists>p. float_of_string s = Some p \<and> pf_le p (Fin 0)) \<and>
                x = ''negative or zero price value'')"
  by (cases "float_of_string s") (simp_all add: price_reasons_def mem_reason_when)

lemma set_reasons_in_order:
  "x \<in> set (reasons_in_order cells) \<longleftrightarrow>
     (strip (cells ! 0) = [] \<and> x = ''missing flight_id'') \<or>
     (strip (cells ! 1) = [] \<and> x = ''missing origin field'') \<or>
     (strip (cells ! 2) = [] \<and> x = ''missing destination field'') \<or>
     (strip (cells ! 3) = [] \<and> x = ''missing departure_datetime'') \<or>
     (strip (cells ! 4) = [] \<and> x = ''missing arrival_datetime'') \<or>
     (strip (cells ! 5) = [] \<and> x = ''missing price'') \<or>
     x \<in> set (identifier_reasons (strip (cells ! 0))) \<or>
     ((strip (cells ! 1) \<noteq> [] \<and> \<not> RE_AIRPORT (strip (cells ! 1))) \<and> x = ''invalid origin code'') \<or>
     ((strip (cells ! 2) \<noteq> [] \<and> \<not> RE_AIRPORT (strip (cells ! 2))) \<and> x = ''invalid destination code'') \<or>
     ((strip (cells ! 3) \<noteq> [] \<and> strptime (strip (cells ! 3)) = None) \<and> x = ''invalid departure datetime'') \<or>
     ((strip (cells ! 4) \<noteq> [] \<and> strptime (strip (cells ! 4)) = None) \<and> x = ''invalid arrival datetime'') \<or>
     x \<in> set (ordering_reasons (strip (cells ! 3)) (strip (cells ! 4))) \<or>
     x \<in> set (price_reasons (strip (cells ! 5)))"
  by (simp only: reasons_in_order_def Let_def set_append Un_iff mem_reason_when)

subsection \<open>Rows evaluated\<close>




subsection \<open>Short rows\<close>

text \<open>
  C5. A row with fewer than six cells is invalid with exactly one reason, the
  missing-required-fields reason, whatever the cells hold: no field-level check
  contributes a reason.
\<close>

theorem short_row_single_reason:
  "length cells < 6 \<Longrightarrow> validate_row cells = Inr (Invalid [''missing required fields''])"
  by (simp add: validate_row_def)

theorem short_row_single_reason_witness:
  "length [''AB12'', ''jfk'', '''', ''yesterday''] < 6 \<and>
   validate_row [''AB12'', ''jfk'', '''', ''yesterday''] = Inr (Invalid [''missing required fields''])"
  using short_row_single_reason [of "[''AB12'', ''jfk'', '''', ''yesterday'']"] by simp

subsection \<open>The order of the reasons\<close>



subsection \<open>The cross-field ordering reason\<close>

lemma dt_le_refl: "dt_le a a"
  by (simp add: dt_le_def)


lemma validate_equal_times:
  "validate_row [''AB12'', ''JFK'', ''LAX'', ''2024-01-01 08:00'', ''2024-01-01 08:00'', ''50''] =
     Inr (Invalid [''arrival before or equal to departure''])"
  by code_simp

lemma validate_blank_and_malformed:
  "validate_row [''  '', ''JFK1'', '' '', ''2024-01-01 08:00'', ''x'', ''-3'', ''extra''] =
     Inr (Invalid [''missing flight_id'', ''missing destination field'', ''invalid origin code'',
                   ''invalid arrival datetime'', ''negative or zero price value''])"
  by code_simp

text \<open>
  C6. In a row of at least six cells whose departure and arrival cells both parse, the
  row is invalid with the ordering reason iff the arrival is not later than the
  departure (equal timestamps are invalid); when one of the two does not parse, the
  ordering reason is not among the reasons.
\<close>

theorem ordering_reason_iff:
  assumes "6 \<le> length cells"
  shows "(\<forall>d a. strptime (strip (cells ! 3)) = Some d \<and> strptime (strip (cells ! 4)) = Some a \<longrightarrow>
            ((\<exists>errors. validate_row cells = Inr (Invalid errors) \<and>
                ''arrival before or equal to departure'' \<in> set errors) \<longleftrightarrow> dt_le a d)) \<and>
         (strptime (strip (cells ! 3)) = None \<or> strptime (strip (cells ! 4)) = None \<longrightarrow>
            (\<forall>errors. validate_row cells = Inr (Invalid errors) \<longrightarrow>
                ''arrival before or equal to departure'' \<notin> set errors))"
proof -
  have mem: "''arrival before or equal to departure'' \<in> set (reasons_in_order cells) \<longleftrightarrow>
      (\<exists>d a. strptime (strip (cells ! 3)) = Some d \<and> strptime (strip (cells ! 4)) = Some a \<and> dt_le a d)"
    by (auto simp: set_reasons_in_order set_ordering_reasons set_price_reasons
          dest: set_identifier_reasons)
  show ?thesis
    using assms mem by (auto simp: validate_row_invalid_iff)
qed

theorem ordering_reason_iff_witness:
  "6 \<le> length [''AB12'', ''JFK'', ''LAX'', ''2024-01-01 08:00'', ''2024-01-01 08:00'', ''50''] \<and>
   strptime (strip ([''AB12'', ''JFK'', ''LAX'', ''2024-01-01 08:00'', ''2024-01-01 08:00'', ''50''] ! 3))
     = Some (Datetime 2024 1 1 8 0) \<and>
   strptime (strip ([''AB12'', ''JFK'', ''LAX'', ''2024-01-01 08:00'', ''2024-01-01 08:00'', ''50''] ! 4))
     = Some (Datetime 2024 1 1 8 0) \<and>
   dt_le (Datetime 2024 1 1 8 0) (Datetime 2024 1 1 8 0) \<and>
   (\<exists>errors.
      validate_row [''AB12'', ''JFK'', ''LAX'', ''2024-01-01 08:00'', ''2024-01-01 08:00'', ''50'']
        = Inr (Invalid errors) \<and>
      ''arrival before or equal to departure'' \<in> set errors) \<and>
   6 \<le> length [''  '', ''JFK1'', '' '', ''2024-01-01 08:00'', ''x'', ''-3'', ''extra''] \<and>
   strptime (strip ([''  '', ''JFK1'', '' '', ''2024-01-01 08:00'', ''x'', ''-3'', ''extra''] ! 4)) = None \<and>
   validate_row [''  '', ''JFK1'', '' '', ''2024-01-01 08:00'', ''x'', ''-3'', ''extra''] =
     Inr (Invalid [''missing flight_id'', ''missing destination field'', ''invalid origin code'',
                   ''invalid arrival datetime'', ''negative or zero price value'']) \<and>
   ''arrival before or equal to departure'' \<notin>
     set [''missing flight_id'', ''missing destination field'', ''invalid origin code'',
          ''invalid arrival datetime'', ''negative or zero price value'']"
proof -
  let ?rowE = "[''AB12'', ''JFK'', ''LAX'', ''2024-01-01 08:00'', ''2024-01-01 08:00'', ''50'']"
  let ?rowN = "[''  '', ''JFK1'', '' '', ''2024-01-01 08:00'', ''x'', ''-3'', ''extra'']"
  let ?t = "Datetime 2024 1 1 8 0"
  have lenE: "6 \<le> length ?rowE" by simp
  have lenN: "6 \<le> length ?rowN" by simp
  have dep: "strptime (strip (?rowE ! 3)) = Some ?t" by code_simp
  have arr: "strptime (strip (?rowE ! 4)) = Some ?t" by code_simp
  have arrN: "strptime (strip (?rowN ! 4)) = None" by code_simp
  have ex: "\<exists>errors. validate_row ?rowE = Inr (Invalid errors) \<and>
      ''arrival before or equal to departure'' \<in> set errors"
    using ordering_reason_iff [OF lenE] dep arr dt_le_refl [of ?t] by blast
  have notin: "''arrival before or equal to departure'' \<notin>
     set [''missing flight_id'', ''missing destination field'', ''invalid origin code'',
          ''invalid arrival datetime'', ''negative or zero price value'']"
    using ordering_reason_iff [OF lenN] arrN validate_blank_and_malformed by blast
  show ?thesis
    using lenE lenN dep arr arrN ex notin dt_le_refl [of ?t] validate_blank_and_malformed
    by (intro conjI)
qed

subsection \<open>Blank fields and format reasons\<close>

lemma count_identifier_reasons:
  "x \<noteq> ''flight_id length must be 2-8 alphanumeric characters'' \<Longrightarrow> x \<noteq> ''invalid flight_id format'' \<Longrightarrow>
   count_list (identifier_reasons fid) x = 0"
  by (simp add: identifier_reasons_def)

lemma count_ordering_reasons:
  "x \<noteq> ''arrival before or equal to departure'' \<Longrightarrow> count_list (ordering_reasons d a) x = 0"
  by (rule count_notin) (simp add: set_ordering_reasons)

lemma count_price_reasons:
  "x \<noteq> ''invalid price format'' \<Longrightarrow> x \<noteq> ''negative or zero price value'' \<Longrightarrow>
   count_list (price_reasons s) x = 0"
  by (rule count_notin) (simp add: set_price_reasons)

lemma count_missing_reason:
  assumes "k < 6"
  shows "count_list (reasons_in_order cells) (missing_reason k) =
         (if strip (cells ! k) = [] then 1 else 0)"
proof -
  from assms consider "k = 0" | "k = 1" | "k = 2" | "k = 3" | "k = 4" | "k = 5"
    by linarith
  then show ?thesis
  proof cases
    case 1
    then show ?thesis
      by (simp add: missing_reason_def reasons_in_order_def Let_def count_reason_when
            count_identifier_reasons count_ordering_reasons count_price_reasons)
  next
    case 2
    then show ?thesis
      by (simp add: missing_reason_def reasons_in_order_def Let_def count_reason_when
            count_identifier_reasons count_ordering_reasons count_price_reasons)
  next
    case 3
    then show ?thesis
      by (simp add: missing_reason_def reasons_in_order_def Let_def count_reason_when
            count_identifier_reasons count_ordering_reasons count_price_reasons)
  next
    case 4
    then show ?thesis
      by (simp add: missing_reason_def reasons_in_order_def Let_def count_reason_when
            count_identifier_reasons count_ordering_reasons count_price_reasons)
  next
    case 5
    then show ?thesis
      by (simp add: missing_reason_def reasons_in_order_def Let_def count_reason_when
            count_identifier_reasons count_ordering_reasons count_price_reasons)
  next
    case 6
    then show ?thesis
      by (simp add: missing_reason_def reasons_in_order_def Let_def count_reason_when
            count_identifier_reasons count_ordering_reasons count_price_reasons)
  qed
qed

lemma format_reason_only_if_invalid:
  assumes "k < 6" "m \<in> set (format_reasons k)" "m \<in> set (reasons_in_order cells)"
  shows "strip (cells ! k) \<noteq> [] \<and> field_invalid k (strip (cells ! k))"
proof -
  from assms(1) consider "k = 0" | "k = 1" | "k = 2" | "k = 3" | "k = 4" | "k = 5"
    by linarith
  then show ?thesis
  proof cases
    case 1
    with assms(2,3) show ?thesis
      by (auto simp: format_reasons_def field_invalid_def set_reasons_in_order
            set_ordering_reasons set_price_reasons dest: set_identifier_reasons)
  next
    case 2
    with assms(2,3) show ?thesis
      by (auto simp: format_reasons_def field_invalid_def set_reasons_in_order
            set_ordering_reasons set_price_reasons dest: set_identifier_reasons)
  next
    case 3
    with assms(2,3) show ?thesis
      by (auto simp: format_reasons_def field_invalid_def set_reasons_in_order
            set_ordering_reasons set_price_reasons dest: set_identifier_reasons)
  next
    case 4
    with assms(2,3) show ?thesis
      by (auto simp: format_reasons_def field_invalid_def set_reasons_in_order
            set_ordering_reasons set_price_reasons dest: set_identifier_reasons)
  next
    case 5
    with assms(2,3) show ?thesis
      by (auto simp: format_reasons_def field_invalid_def set_reasons_in_order
            set_ordering_reasons set_price_reasons dest: set_identifier_reasons)
  next
    case 6
    with assms(2,3) show ?thesis
      by (auto simp: format_reasons_def field_invalid_def price_invalid_def set_reasons_in_order
            set_ordering_reasons set_price_reasons dest: set_identifier_reasons)
  qed
qed

text \<open>
  C7. In a row of at least six cells, a field whose trimmed value is blank contributes
  its missing-field reason exactly once and none of the format or positivity reasons of
  that field; a format or positivity reason of a field is among the reasons only when the
  trimmed value of the field is non-empty and invalid.
\<close>

theorem blank_field_reasons:
  assumes "6 \<le> length cells" and "k < 6"
  shows "(strip (cells ! k) = [] \<longrightarrow>
            (\<exists>errors. validate_row cells = Inr (Invalid errors) \<and>
               count_list errors (missing_reason k) = 1 \<and>
               (\<forall>m \<in> set (format_reasons k). m \<notin> set errors))) \<and>
         (\<forall>errors m. validate_row cells = Inr (Invalid errors) \<and>
               m \<in> set (format_reasons k) \<and> m \<in> set errors \<longrightarrow>
               strip (cells ! k) \<noteq> [] \<and> field_invalid k (strip (cells ! k)))"
proof (intro conjI impI allI)
  assume blank: "strip (cells ! k) = []"
  have cnt: "count_list (reasons_in_order cells) (missing_reason k) = 1"
    using count_missing_reason [OF assms(2), of cells] blank by simp
  then have ne: "reasons_in_order cells \<noteq> []" by auto
  have "\<forall>m \<in> set (format_reasons k). m \<notin> set (reasons_in_order cells)"
    using format_reason_only_if_invalid [OF assms(2)] blank by blast
  with cnt ne assms(1) show "\<exists>errors. validate_row cells = Inr (Invalid errors) \<and>
               count_list errors (missing_reason k) = 1 \<and>
               (\<forall>m \<in> set (format_reasons k). m \<notin> set errors)"
    by (simp add: validate_row_invalid_iff)
next
  fix errors m
  assume "validate_row cells = Inr (Invalid errors) \<and>
               m \<in> set (format_reasons k) \<and> m \<in> set errors"
  then have "m \<in> set (format_reasons k)" and "m \<in> set (reasons_in_order cells)"
    using assms(1) by (auto simp: validate_row_invalid_iff)
  then show "strip (cells ! k) \<noteq> []" "field_invalid k (strip (cells ! k))"
    using format_reason_only_if_invalid [OF assms(2), of m cells] by simp_all
qed

theorem blank_field_reasons_witness:
  "6 \<le> length [''  '', ''JFK1'', '' '', ''2024-01-01 08:00'', ''x'', ''-3'', ''extra''] \<and>
   (0 :: nat) < 6 \<and> (1 :: nat) < 6 \<and>
   strip ([''  '', ''JFK1'', '' '', ''2024-01-01 08:00'', ''x'', ''-3'', ''extra''] ! 0) = [] \<and>
   (\<exists>errors.
      validate_row [''  '', ''JFK1'', '' '', ''2024-01-01 08:00'', ''x'', ''-3'', ''extra'']
        = Inr (Invalid errors) \<and>
      count_list errors (missing_reason 0) = 1 \<and>
      (\<forall>m \<in> set (format_reasons 0). m \<notin> set errors)) \<and>
   validate_row [''  '', ''JFK1'', '' '', ''2024-01-01 08:00'', ''x'', ''-3'', ''extra''] =
     Inr (Invalid [''missing flight_id'', ''missing destination field'', ''invalid origin code'',
                   ''invalid arrival datetime'', ''negative or zero price value'']) \<and>
   ''invalid origin code'' \<in> set (format_reasons 1) \<and>
   ''invalid origin code'' \<in>
     set [''missing flight_id'', ''missing destination field'', ''invalid origin code'',
          ''invalid arrival datetime'', ''negative or zero price value''] \<and>
   strip ([''  '', ''JFK1'', '' '', ''2024-01-01 08:00'', ''x'', ''-3'', ''extra''] ! 1) \<noteq> [] \<and>
   field_invalid 1 (strip ([''  '', ''JFK1'', '' '', ''2024-01-01 08:00'', ''x'', ''-3'', ''extra''] ! 1))"
proof -
  let ?row = "[''  '', ''JFK1'', '' '', ''2024-01-01 08:00'', ''x'', ''-3'', ''extra'']"
  let ?errs = "[''missing flight_id'', ''missing destination field'', ''invalid origin code'',
                ''invalid arrival datetime'', ''negative or zero price value'']"
  have len: "6 \<le> length ?row" by simp
  have k0: "(0 :: nat) < 6" and k1: "(1 :: nat) < 6" by simp_all
  have blank: "strip (?row ! 0) = []" by code_simp
  have m1: "''invalid origin code'' \<in> set (format_reasons 1)"
    by (simp add: format_reasons_def)
  have m2: "''invalid origin code'' \<in> set ?errs" by simp
  have ex: "\<exists>errors. validate_row ?row = Inr (Invalid errors) \<and>
      count_list errors (missing_reason 0) = 1 \<and>
      (\<forall>m \<in> set (format_reasons 0). m \<notin> set errors)"
    using blank_field_reasons [OF len k0] blank by blast
  have inv: "strip (?row ! 1) \<noteq> [] \<and> field_invalid 1 (strip (?row ! 1))"
    using blank_field_reasons [OF len k1] validate_blank_and_malformed m1 m2 by blast
  show ?thesis
    using len k0 k1 blank ex validate_blank_and_malformed m1 m2 inv
    by (intro conjI) simp_all
qed

subsection \<open>The stored price\<close>







section \<open>Properties of the file scanner\<close>

lemma join_Cons_nonempty: "m \<noteq> [] \<Longrightarrow> join sep (m # ms) \<noteq> [] \<and> hd (join sep (m # ms)) = hd m"
  by (cases ms) auto

lemma reasons_first_char:
  assumes "m \<in> set (reasons_in_order cells)"
  shows "m \<noteq> [] \<and> hd m \<noteq> CHR ''c''"
  using assms
  by (auto simp: set_reasons_in_order set_ordering_reasons set_price_reasons
        dest!: set_identifier_reasons)

lemma invalid_message_not_comment:
  assumes "validate_row cells = Inr (Invalid msgs)"
  shows "join '', '' msgs \<noteq> ''comment line, ignored for data parsing''"
proof (cases "6 \<le> length cells")
  case True
  with assms have eq: "msgs = reasons_in_order cells" and ne: "msgs \<noteq> []"
    by (auto simp: validate_row_invalid_iff)
  from ne obtain m ms where ms: "msgs = m # ms" by (cases msgs) auto
  with eq have "m \<in> set (reasons_in_order cells)" by (metis list.set_intros(1))
  then have "m \<noteq> []" "hd m \<noteq> CHR ''c''" using reasons_first_char by blast+
  with join_Cons_nonempty [of m "'', ''" ms] ms show ?thesis by auto
next
  case False
  with assms have "msgs = [''missing required fields'']" by (auto simp: validate_row_def)
  then show ?thesis by simp
qed

lemma strip_Nil_iff: "strip s = [] \<longleftrightarrow> lstrip s = []"
proof
  assume "strip s = []"
  then have all: "\<forall>x \<in> set (dropWhile is_space s). is_space x"
    by (simp add: strip_def rstrip_def lstrip_def dropWhile_eq_Nil_conv)
  show "lstrip s = []"
  proof (rule ccontr)
    assume "lstrip s \<noteq> []"
    then have ne: "dropWhile is_space s \<noteq> []" by (simp add: lstrip_def)
    then have "\<not> is_space (hd (dropWhile is_space s))" by (rule hd_dropWhile)
    moreover from ne have "hd (dropWhile is_space s) \<in> set (dropWhile is_space s)" by simp
    ultimately show False using all by blast
  qed
next
  assume "lstrip s = []"
  then show "strip s = []" by (simp add: strip_def rstrip_def)
qed

lemma scan_line_not_comment:
  assumes "\<not> is_comment raw" and "scan_line i raw (valids, errors) = Inr (valids', errors')"
  shows "\<exists>new. errors' = errors @ new \<and>
           (\<forall>d \<in> set new. snd (snd d) \<noteq> ''comment line, ignored for data parsing'')"
proof -
  have nc: "\<not> startswith (lstrip (rstrip_nl raw)) ''#''"
    using assms(1) by (auto simp: is_comment_def startswith_def split: list.splits)
  show ?thesis
  proof (cases "strip (rstrip_nl raw) = []")
    case True
    with assms(2) show ?thesis by (simp add: scan_line_def Let_def)
  next
    case ne: False
    show ?thesis
    proof (cases "csv_reader_next (rstrip_nl raw)")
      case None
      with assms(2) ne nc show ?thesis by (auto simp: scan_line_def Let_def)
    next
      case (Some cells)
      show ?thesis
      proof (cases "is_header cells")
        case True
        with assms(2) ne nc Some show ?thesis by (simp add: scan_line_def Let_def)
      next
        case False
        from validate_row_total obtain v where v: "validate_row cells = Inr v" by blast
        show ?thesis
        proof (cases v)
          case (Invalid msgs)
          with v have "join '', '' msgs \<noteq> ''comment line, ignored for data parsing''"
            using invalid_message_not_comment by blast
          with assms(2) ne nc Some False v Invalid show ?thesis
            by (auto simp: scan_line_def Let_def)
        next
          case (Valid r)
          with assms(2) ne nc Some False v show ?thesis
            by (auto simp: scan_line_def Let_def)
        qed
      qed
    qed
  qed
qed

text \<open>
  C9. A scanned line whose first non-whitespace character is \<open>#\<close> adds no record and
  adds exactly one diagnostic, which carries the line number, the line and the message
  "comment line, ignored for data parsing". The message tells it apart from every other
  diagnostic: a line that is no comment adds no diagnostic with that message.
\<close>

theorem comment_line_diagnostic:
  "(is_comment raw \<longrightarrow>
      scan_line i raw (valids, errors) =
        Inr (valids, errors @ [(i, rstrip_nl raw, ''comment line, ignored for data parsing'')])) \<and>
   (\<not> is_comment raw \<longrightarrow>
      (\<forall>valids' errors'. scan_line i raw (valids, errors) = Inr (valids', errors') \<longrightarrow>
         (\<exists>new. errors' = errors @ new \<and>
            (\<forall>d \<in> set new. snd (snd d) \<noteq> ''comment line, ignored for data parsing''))))"
proof (intro conjI impI allI)
  assume "is_comment raw"
  then show "scan_line i raw (valids, errors) =
        Inr (valids, errors @ [(i, rstrip_nl raw, ''comment line, ignored for data parsing'')])"
    by (auto simp: is_comment_def scan_line_def Let_def startswith_def strip_Nil_iff
          split: list.splits)
next
  fix valids' errors'
  assume "\<not> is_comment raw" and "scan_line i raw (valids, errors) = Inr (valids', errors')"
  then show "\<exists>new. errors' = errors @ new \<and>
            (\<forall>d \<in> set new. snd (snd d) \<noteq> ''comment line, ignored for data parsing'')"
    by (rule scan_line_not_comment)
qed

lemma scan_invalid_line:
  "scan_line 5 ''A,jfk,LAX,2024-01-01 08:00,2024-01-01 06:00,50'' ([], []) =
     Inr ([], [(5, ''A,jfk,LAX,2024-01-01 08:00,2024-01-01 06:00,50'',
                ''flight_id length must be 2-8 alphanumeric characters, invalid origin code, arrival before or equal to departure'')])"
  by code_simp

theorem comment_line_diagnostic_witness:
  "is_comment [CHR '' '', CHR '' '', CHR ''#'', CHR '' '', CHR ''n'', CHR ''o'', CHR ''t'', CHR ''e'', CHR 0x0A] \<and>
   scan_line 2 [CHR '' '', CHR '' '', CHR ''#'', CHR '' '', CHR ''n'', CHR ''o'', CHR ''t'', CHR ''e'', CHR 0x0A] ([], []) =
     Inr ([], [(2, ''  # note'', ''comment line, ignored for data parsing'')]) \<and>
   \<not> is_comment ''A,jfk,LAX,2024-01-01 08:00,2024-01-01 06:00,50'' \<and>
   scan_line 5 ''A,jfk,LAX,2024-01-01 08:00,2024-01-01 06:00,50'' ([], []) =
     Inr ([], [(5, ''A,jfk,LAX,2024-01-01 08:00,2024-01-01 06:00,50'',
                ''flight_id length must be 2-8 alphanumeric characters, invalid origin code, arrival before or equal to departure'')]) \<and>
   (\<exists>new. [(5 :: int, ''A,jfk,LAX,2024-01-01 08:00,2024-01-01 06:00,50'',
              ''flight_id length must be 2-8 alphanumeric characters, invalid origin code, arrival before or equal to departure'')]
             = [] @ new \<and>
          (\<forall>d \<in> set new. snd (snd d) \<noteq> ''comment line, ignored for data parsing''))"
proof -
  let ?c = "[CHR '' '', CHR '' '', CHR ''#'', CHR '' '', CHR ''n'', CHR ''o'', CHR ''t'', CHR ''e'', CHR 0x0A]"
  let ?b = "''A,jfk,LAX,2024-01-01 08:00,2024-01-01 06:00,50''"
  have c: "is_comment ?c" by code_simp
  have line: "rstrip_nl ?c = ''  # note''" by code_simp
  have b: "\<not> is_comment ?b" by code_simp
  have sc: "scan_line 2 ?c ([], []) =
      Inr ([], [(2, ''  # note'', ''comment line, ignored for data parsing'')])"
    using comment_line_diagnostic [of ?c 2 "[]" "[]"] c line by simp
  have sb: "\<exists>new. [(5 :: int, ?b,
              ''flight_id length must be 2-8 alphanumeric characters, invalid origin code, arrival before or equal to departure'')]
             = [] @ new \<and>
          (\<forall>d \<in> set new. snd (snd d) \<noteq> ''comment line, ignored for data parsing'')"
    using comment_line_diagnostic [of ?b 5 "[]" "[]"] b scan_invalid_line by blast
  show ?thesis using c sc b scan_invalid_line sb by (intro conjI)
qed

section \<open>Properties of the query matcher\<close>


















subsection \<open>Values evaluated\<close>

lemma strptime_examples:
  "strptime ''2024-01-01 08:00'' = Some (Datetime 2024 1 1 8 0)"
  "strptime ''2024-01-01 14:30'' = Some (Datetime 2024 1 1 14 30)"
  "strptime ''2024-02-10 09:15'' = Some (Datetime 2024 2 10 9 15)"
  "strptime ''2024-02-10 12:45'' = Some (Datetime 2024 2 10 12 45)"
  "strptime ''2025-01-01 00:00'' = Some (Datetime 2025 1 1 0 0)"
  "strptime ''tomorrow'' = None"
  by code_simp+

lemma float_of_string_cheap: "float_of_string ''cheap'' = None"
  by code_simp



subsection \<open>The matcher filters the dataset\<close>



subsection \<open>A record without a price\<close>



subsection \<open>A query value that does not parse\<close>

text \<open>
  C1. The claim is that a query whose departure, arrival or price value does not parse
  makes the matcher raise. The matcher raises for the price, but a timestamp that does
  not parse is dropped: the query with the departure \<open>tomorrow\<close> returns the whole
  dataset, while a timestamp that parses constrains the result.
\<close>

theorem unparseable_query_datetime_is_ignored:
  "match_query [flight_dict example_flight] [''departure_datetime'' \<mapsto> JStr ''tomorrow''] =
     Inr [flight_dict example_flight] \<and>
   match_query [flight_dict example_flight] [''departure_datetime'' \<mapsto> JStr ''2025-01-01 00:00''] =
     Inr [] \<and>
   match_query [flight_dict example_flight] [''price'' \<mapsto> JStr ''cheap''] = Inl ValueError"
proof (intro conjI)
  show "match_query [flight_dict example_flight] [''departure_datetime'' \<mapsto> JStr ''tomorrow''] =
     Inr [flight_dict example_flight]"
    by (simp add: match_query_def query_datetime_def query_price_def dict_get_def
          strptime_examples rec_matches_def departure_check_def arrival_check_def
          price_ceiling_check_def)
  show "match_query [flight_dict example_flight]
      [''departure_datetime'' \<mapsto> JStr ''2025-01-01 00:00''] = Inr []"
    by (simp add: match_query_def query_datetime_def query_price_def dict_get_def
          strptime_examples rec_matches_def departure_check_def arrival_check_def
          price_ceiling_check_def flight_dict_def example_flight_def dt_lt_def as_tuple_def)
  show "match_query [flight_dict example_flight] [''price'' \<mapsto> JStr ''cheap''] = Inl ValueError"
    by (simp add: match_query_def query_datetime_def query_price_def dict_get_def
          float_of_string_cheap)
qed

section \<open>Validating a rendered record again\<close>

subsection \<open>Digits and the pieces of the timestamp pattern\<close>


























lemma concat_map_head:
  assumes "xs = x # xs'" and "f x = z # zs"
  shows "\<exists>ws. concat (map f xs) = z # ws"
  using assms by simp






subsection \<open>Parsing a rendered timestamp, stripping and rounding twice\<close>


















subsection \<open>The round trip\<close>







end
